theory Spec2Isabelle
  imports Complex_Main
begin

section \<open>The cluster store behind the kubernetes client\<close>

text \<open>
  \<^verbatim>\<open>ClientImpl\<close> (package \<^verbatim>\<open>k8s\<close>) talks to the cluster through a
  \<^verbatim>\<open>kubernetes.Clientset\<close>. The cluster is an external collaborator; it is modelled as
  a store of Secrets and ConfigMaps keyed by namespace and name, a list of namespaces,
  a predicate telling which requests the API server fails, and the trace of the requests
  issued so far. Byte slices and strings are both \<^typ>\<open>string\<close>.

  A Go map can be \<^verbatim>\<open>nil\<close>: reading a nil map yields the zero value, assigning to an
  entry of a nil map panics. The \<^verbatim>\<open>Data\<close> field of an object is therefore an optional
  map, \<open>None\<close> being the nil map (an object stored without data is decoded so).
\<close>

datatype panic = AssignmentToEntryInNilMap

datatype api_error = NotFound | AlreadyExists | ServerError

datatype request =
    SecretsGet string string
  | SecretsCreate string string
  | SecretsUpdate string string
  | NamespacesList
  | ConfigMapsGet string string
  | ConfigMapsCreate string string
  | ConfigMapsUpdate string string

record object =
  Name :: string
  Data :: "(string \<rightharpoonup> string) option"

text \<open>
  The store keeps the data of each object under its namespace and name, so an object read
  back always carries the name it was asked for. \<open>failing\<close> tells which requests the
  API server (or the transport) fails; \<open>requests\<close> is the trace of the requests issued,
  each with the error it got (\<open>None\<close> when it succeeded).
\<close>

record cluster =
  namespaces :: "string list"
  secrets :: "string \<times> string \<rightharpoonup> (string \<rightharpoonup> string) option"
  configmaps :: "string \<times> string \<rightharpoonup> (string \<rightharpoonup> string) option"
  failing :: "request \<Rightarrow> bool"
  requests :: "(request \<times> api_error option) list"

text \<open>\<^verbatim>\<open>m[k]\<close> on a Go map: the zero value (the empty string) for a nil map or a missing key.\<close>

definition index :: "(string \<rightharpoonup> string) option \<Rightarrow> string \<Rightarrow> string" where
  "index d k = (case d of None \<Rightarrow> [] | Some m \<Rightarrow> (case m k of None \<Rightarrow> [] | Some v \<Rightarrow> v))"

text \<open>\<^verbatim>\<open>m[k] = v\<close> on a Go map: a panic for the nil map.\<close>

definition assign ::
  "(string \<rightharpoonup> string) option \<Rightarrow> string \<Rightarrow> string \<Rightarrow> panic + (string \<rightharpoonup> string) option" where
  "assign d k v = (case d of None \<Rightarrow> Inl AssignmentToEntryInNilMap | Some m \<Rightarrow> Inr (Some (m(k \<mapsto> v))))"

text \<open>The zero object \<^verbatim>\<open>&v1.Secret{}\<close> that a typed client returns beside an error.\<close>

definition zero_object :: object where
  "zero_object = \<lparr>Name = [], Data = None\<rparr>"

definition issue :: "request \<Rightarrow> api_error option \<Rightarrow> cluster \<Rightarrow> cluster" where
  "issue r e c = c\<lparr>requests := requests c @ [(r, e)]\<rparr>"

definition Secrets_Get :: "string \<Rightarrow> string \<Rightarrow> cluster \<Rightarrow> (object \<times> api_error option) \<times> cluster" where
  "Secrets_Get ns name c =
     (if failing c (SecretsGet ns name)
      then ((zero_object, Some ServerError), issue (SecretsGet ns name) (Some ServerError) c)
      else case secrets c (ns, name) of
             None \<Rightarrow> ((zero_object, Some NotFound), issue (SecretsGet ns name) (Some NotFound) c)
           | Some d \<Rightarrow> ((\<lparr>Name = name, Data = d\<rparr>, None), issue (SecretsGet ns name) None c))"

definition Secrets_Create :: "string \<Rightarrow> object \<Rightarrow> cluster \<Rightarrow> api_error option \<times> cluster" where
  "Secrets_Create ns s c =
     (if failing c (SecretsCreate ns (Name s))
      then (Some ServerError, issue (SecretsCreate ns (Name s)) (Some ServerError) c)
      else case secrets c (ns, Name s) of
             Some _ \<Rightarrow> (Some AlreadyExists, issue (SecretsCreate ns (Name s)) (Some AlreadyExists) c)
           | None \<Rightarrow>
               (None, issue (SecretsCreate ns (Name s)) None
                        (c\<lparr>secrets := (secrets c)((ns, Name s) \<mapsto> Data s)\<rparr>)))"

definition Secrets_Update :: "string \<Rightarrow> object \<Rightarrow> cluster \<Rightarrow> api_error option \<times> cluster" where
  "Secrets_Update ns s c =
     (if failing c (SecretsUpdate ns (Name s))
      then (Some ServerError, issue (SecretsUpdate ns (Name s)) (Some ServerError) c)
      else case secrets c (ns, Name s) of
             None \<Rightarrow> (Some NotFound, issue (SecretsUpdate ns (Name s)) (Some NotFound) c)
           | Some _ \<Rightarrow>
               (None, issue (SecretsUpdate ns (Name s)) None
                        (c\<lparr>secrets := (secrets c)((ns, Name s) \<mapsto> Data s)\<rparr>)))"

definition Namespaces_List :: "cluster \<Rightarrow> (string list \<times> api_error option) \<times> cluster" where
  "Namespaces_List c =
     (if failing c NamespacesList
      then (([], Some ServerError), issue NamespacesList (Some ServerError) c)
      else ((namespaces c, None), issue NamespacesList None c))"

definition ConfigMaps_Get :: "string \<Rightarrow> string \<Rightarrow> cluster \<Rightarrow> (object \<times> api_error option) \<times> cluster" where
  "ConfigMaps_Get ns name c =
     (if failing c (ConfigMapsGet ns name)
      then ((zero_object, Some ServerError), issue (ConfigMapsGet ns name) (Some ServerError) c)
      else case configmaps c (ns, name) of
             None \<Rightarrow> ((zero_object, Some NotFound), issue (ConfigMapsGet ns name) (Some NotFound) c)
           | Some d \<Rightarrow> ((\<lparr>Name = name, Data = d\<rparr>, None), issue (ConfigMapsGet ns name) None c))"

definition ConfigMaps_Create :: "string \<Rightarrow> object \<Rightarrow> cluster \<Rightarrow> api_error option \<times> cluster" where
  "ConfigMaps_Create ns cm c =
     (if failing c (ConfigMapsCreate ns (Name cm))
      then (Some ServerError, issue (ConfigMapsCreate ns (Name cm)) (Some ServerError) c)
      else case configmaps c (ns, Name cm) of
             Some _ \<Rightarrow> (Some AlreadyExists, issue (ConfigMapsCreate ns (Name cm)) (Some AlreadyExists) c)
           | None \<Rightarrow>
               (None, issue (ConfigMapsCreate ns (Name cm)) None
                        (c\<lparr>configmaps := (configmaps c)((ns, Name cm) \<mapsto> Data cm)\<rparr>)))"

definition ConfigMaps_Update :: "string \<Rightarrow> object \<Rightarrow> cluster \<Rightarrow> api_error option \<times> cluster" where
  "ConfigMaps_Update ns cm c =
     (if failing c (ConfigMapsUpdate ns (Name cm))
      then (Some ServerError, issue (ConfigMapsUpdate ns (Name cm)) (Some ServerError) c)
      else case configmaps c (ns, Name cm) of
             None \<Rightarrow> (Some NotFound, issue (ConfigMapsUpdate ns (Name cm)) (Some NotFound) c)
           | Some _ \<Rightarrow>
               (None, issue (ConfigMapsUpdate ns (Name cm)) None
                        (c\<lparr>configmaps := (configmaps c)((ns, Name cm) \<mapsto> Data cm)\<rparr>)))"

section \<open>The client: \<^verbatim>\<open>GetAuthorityCert\<close>, \<^verbatim>\<open>UpdateAuthorityCert\<close>, \<^verbatim>\<open>UpdateAuthorityPublicKey\<close>\<close>

text \<open>
  Calls to the logger change nothing the program reads and are left out. Every function
  takes the cluster and returns it with the requests it issued.
\<close>

definition GetAuthorityCert :: "string \<Rightarrow> cluster \<Rightarrow> (string \<times> string) \<times> cluster" where
  "GetAuthorityCert namespace c =
     (let ((s, err), c1) = Secrets_Get namespace ''dubbo-ca-secret'' c
      in ((index (Data s) ''cert.pem'', index (Data s) ''pri.pem''), c1))"

definition UpdateAuthorityCert :: "string \<Rightarrow> string \<Rightarrow> string \<Rightarrow> cluster \<Rightarrow> (panic + unit) \<times> cluster" where
  "UpdateAuthorityCert cert pri namespace c =
     (let ((s0, err), c1) = Secrets_Get namespace ''dubbo-ca-secret'' c;
          (s, c2) =
            (if err \<noteq> None then
               (let s1 = \<lparr>Name = ''dubbo-ca-secret'',
                          Data = Some [''cert.pem'' \<mapsto> cert, ''pri.pem'' \<mapsto> pri]\<rparr>;
                    (err1, c') = Secrets_Create namespace s1 c1
                in (s1, c'))
             else (s0, c1))
      in if index (Data s) ''cert.pem'' = cert \<and> index (Data s) ''pri.pem'' = pri then (Inr (), c2)
         else
           (case assign (Data s) ''cert.pem'' cert of
              Inl p \<Rightarrow> (Inl p, c2)
            | Inr d1 \<Rightarrow>
                (case assign d1 ''pri.pem'' pri of
                   Inl p \<Rightarrow> (Inl p, c2)
                 | Inr d2 \<Rightarrow>
                     (let (err2, c3) = Secrets_Update namespace (s\<lparr>Data := d2\<rparr>) c2
                      in (Inr (), c3)))))"

text \<open>
  One pass of the body of \<^verbatim>\<open>for _, n := range ns.Items\<close>: it ends in \<^verbatim>\<open>continue\<close>
  (or falls off the end of the body), in \<^verbatim>\<open>return false\<close>, or in a panic.
\<close>

datatype 'a flow = Continue | Return 'a | Panicked panic

definition UpdateAuthorityPublicKey_body :: "string \<Rightarrow> string \<Rightarrow> cluster \<Rightarrow> bool flow \<times> cluster" where
  "UpdateAuthorityPublicKey_body cert n c =
     (if n = ''kube-system'' then (Continue, c)
      else
        (let ((cm0, err), c1) = ConfigMaps_Get n ''dubbo-ca-cert'' c;
             (failed, cm, c2) =
               (if err \<noteq> None then
                  (let cm1 = \<lparr>Name = ''dubbo-ca-cert'', Data = Some [''ca.crt'' \<mapsto> cert]\<rparr>;
                       (err1, c') = ConfigMaps_Create n cm1 c1
                   in (err1 \<noteq> None, cm1, c'))
                else (False, cm0, c1))
         in if failed then (Return False, c2)
            else if index (Data cm) ''ca.crt'' = cert then (Continue, c2)
            else
              (case assign (Data cm) ''ca.crt'' cert of
                 Inl p \<Rightarrow> (Panicked p, c2)
               | Inr d \<Rightarrow>
                   (let (err2, c3) = ConfigMaps_Update n (cm\<lparr>Data := d\<rparr>) c2
                    in if err2 \<noteq> None then (Return False, c3) else (Continue, c3)))))"

fun UpdateAuthorityPublicKey_range :: "string \<Rightarrow> string list \<Rightarrow> cluster \<Rightarrow> (panic + bool) \<times> cluster" where
  "UpdateAuthorityPublicKey_range cert [] c = (Inr True, c)"
| "UpdateAuthorityPublicKey_range cert (n # items) c =
     (case UpdateAuthorityPublicKey_body cert n c of
        (Continue, c') \<Rightarrow> UpdateAuthorityPublicKey_range cert items c'
      | (Return b, c') \<Rightarrow> (Inr b, c')
      | (Panicked p, c') \<Rightarrow> (Inl p, c'))"

definition UpdateAuthorityPublicKey :: "string \<Rightarrow> cluster \<Rightarrow> (panic + bool) \<times> cluster" where
  "UpdateAuthorityPublicKey cert c =
     (let ((items, err), c1) = Namespaces_List c
      in if err \<noteq> None then (Inr False, c1)
         else UpdateAuthorityPublicKey_range cert items c1)"

section \<open>float64 arithmetic\<close>

text \<open>
  \<^verbatim>\<open>ScheduleRefreshAuthorityCert\<close> computes its interval in \<^verbatim>\<open>float64\<close>. A finite
  float64 is a rational \<open>m * 2 ^ e\<close> with \<open>\<bar>m\<bar> < 2 ^ 53\<close>; every operation returns the
  float64 nearest to the exact result, ties going to the even mantissa. \<open>float64 q\<close> is that
  rounding of the rational \<open>q\<close>. Overflow and subnormal numbers are not modelled: the values
  met here lie between \<open>1 / 100\<close> and \<open>2 ^ 63\<close> in magnitude, or are zero.
\<close>

function bits :: "int \<Rightarrow> int" where
  "bits n = (if n \<le> 0 then 0 else 1 + bits (n div 2))"
  by pat_completeness auto
termination
  by (relation "measure nat") auto

declare bits.simps [simp del]

text \<open>The binary exponent of a rational \<open>q \<noteq> 0\<close>: the \<open>k\<close> with \<open>2 ^ k \<le> \<bar>q\<bar> < 2 ^ (k + 1)\<close>.\<close>

definition exponent :: "rat \<Rightarrow> int" where
  "exponent q =
     (let (a, b) = quotient_of \<bar>q\<bar>
      in if b \<le> a then bits (a div b) - 1
         else - bits ((b - 1) div a))"

definition round_half_even :: "rat \<Rightarrow> int" where
  "round_half_even r =
     (let f = \<lfloor>r\<rfloor>
      in if r - of_int f < 1 / 2 then f
         else if 1 / 2 < r - of_int f then f + 1
         else if even f then f else f + 1)"

definition float64 :: "rat \<Rightarrow> rat" where
  "float64 q =
     (if q = 0 then 0
      else of_int (round_half_even (q / 2 powi (exponent q - 52))) * 2 powi (exponent q - 52))"

text \<open>\<^verbatim>\<open>math.Floor\<close> and \<^verbatim>\<open>math.Min\<close> are exact on finite arguments.\<close>

definition math_Floor :: "rat \<Rightarrow> rat" where
  "math_Floor x = of_int \<lfloor>x\<rfloor>"

definition math_Min :: "rat \<Rightarrow> rat \<Rightarrow> rat" where
  "math_Min x y = min x y"

text \<open>Two's complement \<^verbatim>\<open>int64\<close>, and the conversion of a float64 to it (truncation).\<close>

definition int64 :: "int \<Rightarrow> int" where
  "int64 n = (n + 2 ^ 63) mod 2 ^ 64 - 2 ^ 63"

definition Duration :: "rat \<Rightarrow> int" where
  "Duration x = int64 (if 0 \<le> x then \<lfloor>x\<rfloor> else \<lceil>x\<rceil>)"

definition Millisecond :: int where
  "Millisecond = 1000000"

section \<open>The server: bootstrap and scheduled refresh of the authority certificate\<close>

text \<open>
  Package \<^verbatim>\<open>cert\<close> and package \<^verbatim>\<open>config\<close> are not among the sources. From their use in
  \<^verbatim>\<open>server.go\<close>: a \<^verbatim>\<open>Cert\<close> has the fields \<^verbatim>\<open>Cert\<close>, \<^verbatim>\<open>CertPem\<close> and \<^verbatim>\<open>PrivateKey\<close>;
  the storage holds \<^verbatim>\<open>RootCert\<close>, \<^verbatim>\<open>AuthorityCert\<close> and the slice \<^verbatim>\<open>TrustedCert\<close>; the options
  hold \<^verbatim>\<open>Namespace\<close> and \<^verbatim>\<open>CaValidity\<close>. The parsed certificate and the key are of
  unknown types \<open>'x\<close> and \<open>'k\<close> (\<open>None\<close> for a nil pointer). The storage holds pointers to
  certificates; the model holds their values, which is the same as long as a certificate
  is not changed through one pointer and read through another, and a freshly generated
  certificate is a new value.
\<close>

record ('x, 'k) Cert =
  Cert :: "'x option"
  CertPem :: string
  PrivateKey :: "'k option"

record Options =
  Namespace :: string
  CaValidity :: int

record ('x, 'k) Storage =
  RootCert :: "('x, 'k) Cert option"
  AuthorityCert :: "('x, 'k) Cert"
  TrustedCert :: "('x, 'k) Cert list"

text \<open>
  The functions of package \<^verbatim>\<open>cert\<close> that the server calls are parameters of the model.
  They read the wall clock and a source of randomness: \<open>'w\<close> is what they see of both at
  the moment of the call.
\<close>

record ('x, 'k, 'w) cert_package =
  DecodeCert :: "string \<Rightarrow> 'x option"
  DecodePrivateKey :: "string \<Rightarrow> 'k option"
  EncodePri :: "'k option \<Rightarrow> string"
  GenerateAuthorityCert :: "'w \<Rightarrow> ('x, 'k) Cert option \<Rightarrow> int \<Rightarrow> ('x, 'k) Cert"
  IsValid :: "'w \<Rightarrow> ('x, 'k) Cert \<Rightarrow> bool"
  NeedRefresh :: "'w \<Rightarrow> ('x, 'k) Cert \<Rightarrow> bool"

text \<open>
  \<open>StopChan\<close> holds the signals sent and not yet received (the channel is made with room
  for one). \<open>slept\<close> is a ghost field: the durations, in nanoseconds, of the calls of
  \<^verbatim>\<open>time.Sleep\<close> that have returned.
\<close>

record ('x, 'k) Server =
  StopChan :: "nat list"
  Options :: Options
  CertStorage :: "('x, 'k) Storage"
  KubeClient :: cluster
  slept :: "int list"

definition RefreshAuthorityCert ::
  "('x, 'k, 'w) cert_package \<Rightarrow> 'w \<Rightarrow> ('x, 'k) Server \<Rightarrow> (panic + unit) \<times> ('x, 'k) Server" where
  "RefreshAuthorityCert P w s =
     (let (r1, s1) =
            (if IsValid P w (AuthorityCert (CertStorage s)) then (Inr (), s)
             else
               (let s' = s\<lparr>CertStorage := (CertStorage s)\<lparr>AuthorityCert :=
                           GenerateAuthorityCert P w (RootCert (CertStorage s)) (CaValidity (Options s))\<rparr>\<rparr>;
                    (r, c) = UpdateAuthorityCert (CertPem (AuthorityCert (CertStorage s')))
                               (EncodePri P (PrivateKey (AuthorityCert (CertStorage s'))))
                               (Namespace (Options s')) (KubeClient s')
                in (r, s'\<lparr>KubeClient := c\<rparr>)))
      in case r1 of
           Inl p \<Rightarrow> (Inl p, s1)
         | Inr _ \<Rightarrow>
             (let (r2, c2) = UpdateAuthorityPublicKey (CertPem (AuthorityCert (CertStorage s1))) (KubeClient s1);
                  s2 = s1\<lparr>KubeClient := c2\<rparr>
              in case r2 of
                   Inl p \<Rightarrow> (Inl p, s2)
                 | Inr ok \<Rightarrow>
                     (Inr (), s2\<lparr>CertStorage := (CertStorage s2)\<lparr>TrustedCert :=
                                 TrustedCert (CertStorage s2) @ [AuthorityCert (CertStorage s2)]\<rparr>\<rparr>)))"

text \<open>
  \<^verbatim>\<open>LoadAuthorityCert\<close> up to the point where it starts the refresh loop on a goroutine
  of its own.
\<close>

definition LoadAuthorityCert ::
  "('x, 'k, 'w) cert_package \<Rightarrow> 'w \<Rightarrow> ('x, 'k) Server \<Rightarrow> (panic + unit) \<times> ('x, 'k) Server" where
  "LoadAuthorityCert P w s =
     (let ((certStr, priStr), c) = GetAuthorityCert (Namespace (Options s)) (KubeClient s);
          s1 = s\<lparr>KubeClient := c\<rparr>;
          s2 = (if certStr \<noteq> [] \<and> priStr \<noteq> [] then
                  s1\<lparr>CertStorage := (CertStorage s1)\<lparr>AuthorityCert :=
                       (AuthorityCert (CertStorage s1))\<lparr>Cert := DecodeCert P certStr, CertPem := certStr,
                          PrivateKey := DecodePrivateKey P priStr\<rparr>\<rparr>\<rparr>
                else s1)
      in RefreshAuthorityCert P w s2)"

text \<open>
  The loop of \<^verbatim>\<open>ScheduleRefreshAuthorityCert\<close> runs beside the rest of the process. What
  the rest of the process and the world do during one iteration is the iteration's
  \<open>tick\<close>: the moment the cert package sees, and the signals sent to \<^verbatim>\<open>StopChan\<close>
  while the iteration sleeps and while it checks and refreshes the certificate.
\<close>

record 'w tick =
  moment :: 'w
  during_sleep :: "nat list"
  during_refresh :: "nat list"

definition Sleep :: "int \<Rightarrow> ('x, 'k) Server \<Rightarrow> ('x, 'k) Server" where
  "Sleep d s = s\<lparr>slept := slept s @ [d]\<rparr>"

definition deliver :: "nat list \<Rightarrow> ('x, 'k) Server \<Rightarrow> ('x, 'k) Server" where
  "deliver sigs s = s\<lparr>StopChan := take 1 (StopChan s @ sigs)\<rparr>"

definition interval :: "int \<Rightarrow> rat" where
  "interval v = math_Min (math_Floor (float64 (float64 (of_int v) / 100))) 10000"

text \<open>One pass of the body of \<^verbatim>\<open>for true\<close>: \<^verbatim>\<open>continue\<close>, \<^verbatim>\<open>return\<close>, or a panic.\<close>

definition ScheduleRefreshAuthorityCert_body ::
  "('x, 'k, 'w) cert_package \<Rightarrow> rat \<Rightarrow> 'w tick \<Rightarrow> ('x, 'k) Server \<Rightarrow> unit flow \<times> ('x, 'k) Server" where
  "ScheduleRefreshAuthorityCert_body P ival t s =
     (let s1 = deliver (during_sleep t) (Sleep (int64 (Duration ival * Millisecond)) s);
          (r, s2) =
            (if NeedRefresh P (moment t) (AuthorityCert (CertStorage s1)) then
               (let s' = s1\<lparr>CertStorage := (CertStorage s1)\<lparr>AuthorityCert :=
                           GenerateAuthorityCert P (moment t) (RootCert (CertStorage s1)) (CaValidity (Options s1))\<rparr>\<rparr>;
                    (r1, c1) = UpdateAuthorityCert (CertPem (AuthorityCert (CertStorage s')))
                                 (EncodePri P (PrivateKey (AuthorityCert (CertStorage s'))))
                                 (Namespace (Options s')) (KubeClient s')
                in case r1 of
                     Inl p \<Rightarrow> (Inl p, s'\<lparr>KubeClient := c1\<rparr>)
                   | Inr _ \<Rightarrow>
                       (let (r2, c2) = UpdateAuthorityPublicKey (CertPem (AuthorityCert (CertStorage s'))) c1
                        in case r2 of
                             Inl p \<Rightarrow> (Inl p, s'\<lparr>KubeClient := c2\<rparr>)
                           | Inr ok \<Rightarrow> (Inr (), s'\<lparr>KubeClient := c2\<rparr>)))
             else (Inr (), s1))
      in case r of
           Inl p \<Rightarrow> (Panicked p, s2)
         | Inr _ \<Rightarrow>
             (let s3 = deliver (during_refresh t) s2
              in case StopChan s3 of
                   [] \<Rightarrow> (Continue, s3)
                 | sig # rest \<Rightarrow> (Return (), s3\<lparr>StopChan := rest\<rparr>)))"

text \<open>
  The loop never ends by itself. It is run over the ticks of a finite stretch of time:
  \<open>Running\<close> says the loop is still going when the ticks are used up.
\<close>

datatype run = Running | Returned | Crashed panic

fun ScheduleRefreshAuthorityCert_loop ::
  "('x, 'k, 'w) cert_package \<Rightarrow> rat \<Rightarrow> 'w tick list \<Rightarrow> ('x, 'k) Server \<Rightarrow> run \<times> ('x, 'k) Server" where
  "ScheduleRefreshAuthorityCert_loop P ival [] s = (Running, s)"
| "ScheduleRefreshAuthorityCert_loop P ival (t # ts) s =
     (case ScheduleRefreshAuthorityCert_body P ival t s of
        (Continue, s') \<Rightarrow> ScheduleRefreshAuthorityCert_loop P ival ts s'
      | (Return _, s') \<Rightarrow> (Returned, s')
      | (Panicked p, s') \<Rightarrow> (Crashed p, s'))"

definition ScheduleRefreshAuthorityCert ::
  "('x, 'k, 'w) cert_package \<Rightarrow> 'w tick list \<Rightarrow> ('x, 'k) Server \<Rightarrow> run \<times> ('x, 'k) Server" where
  "ScheduleRefreshAuthorityCert P ts s =
     ScheduleRefreshAuthorityCert_loop P (interval (CaValidity (Options s))) ts s"

text \<open>
  The certificate callback that \<^verbatim>\<open>Init\<close> installs in the TLS configuration.
  \<^verbatim>\<open>GetServerCert\<close> (package \<^verbatim>\<open>cert\<close>) is a parameter: it takes the server name and
  the storage and returns a pointer to a certificate (\<open>None\<close> for nil) and the storage.
  The second component of the callback's result is its \<^verbatim>\<open>error\<close>, \<open>None\<close> for nil.
\<close>

record ClientHelloInfo =
  ServerName :: string

definition GetCertificate ::
  "(string \<Rightarrow> ('x, 'k) Storage \<Rightarrow> 't option \<times> ('x, 'k) Storage) \<Rightarrow> ClientHelloInfo \<Rightarrow>
   ('x, 'k) Server \<Rightarrow> ('t option \<times> string option) \<times> ('x, 'k) Server" where
  "GetCertificate GetServerCert info s =
     (let (crt, st) = GetServerCert (ServerName info) (CertStorage s)
      in ((crt, None), s\<lparr>CertStorage := st\<rparr>))"

section \<open>Measures on the trace of requests\<close>

text \<open>
  What the statements about \<^verbatim>\<open>UpdateAuthorityPublicKey\<close> count: the writes to the trust
  record of a namespace that the store carried out, the update requests issued for it
  whether they succeeded or not, and whether the record of a namespace exists and reads
  the given certificate.
\<close>

definition effective_writes :: "string \<Rightarrow> (request \<times> api_error option) list \<Rightarrow> nat" where
  "effective_writes n tr =
     length (filter (\<lambda>(r, e). e = None \<and>
        (r = ConfigMapsCreate n ''dubbo-ca-cert'' \<or> r = ConfigMapsUpdate n ''dubbo-ca-cert'')) tr)"

definition update_calls :: "string \<Rightarrow> (request \<times> api_error option) list \<Rightarrow> nat" where
  "update_calls n tr = length (filter (\<lambda>(r, e). r = ConfigMapsUpdate n ''dubbo-ca-cert'') tr)"

definition trust_record_is :: "string \<Rightarrow> string \<Rightarrow> cluster \<Rightarrow> bool" where
  "trust_record_is cert n c =
     (case configmaps c (n, ''dubbo-ca-cert'') of None \<Rightarrow> False | Some d \<Rightarrow> index d ''ca.crt'' = cert)"

text \<open>
  The writes carried out so far, plus one as long as the record does not read the
  certificate: no step of the broadcast makes this number grow.
\<close>

definition potential :: "string \<Rightarrow> string \<Rightarrow> cluster \<Rightarrow> nat" where
  "potential cert n c =
     effective_writes n (requests c) + (if trust_record_is cert n c then 0 else 1)"

section \<open>Example inputs\<close>

text \<open>
  Concrete clusters, a stand-in for package \<^verbatim>\<open>cert\<close> and a server, used to run the
  model. In the stand-in a parsed certificate is its validity window (not before, not
  after, in milliseconds), a key is a string, and the moment of a call is the clock
  reading together with the random string the generator draws.
\<close>

definition empty_cluster :: cluster where
  "empty_cluster =
     \<lparr>namespaces = [''dubbo-system'', ''kube-system'', ''default''], secrets = Map.empty,
      configmaps = Map.empty, failing = (\<lambda>_. False), requests = []\<rparr>"

definition bare_secret_cluster :: cluster where
  "bare_secret_cluster =
     empty_cluster\<lparr>secrets := [(''dubbo-system'', ''dubbo-ca-secret'') \<mapsto> None]\<rparr>"

definition flaky_cluster :: cluster where
  "flaky_cluster =
     empty_cluster\<lparr>failing := (\<lambda>r. r = ConfigMapsCreate ''dubbo-system'' ''dubbo-ca-cert'')\<rparr>"

definition synced_cluster :: cluster where
  "synced_cluster =
     empty_cluster\<lparr>configmaps :=
       [(''dubbo-system'', ''dubbo-ca-cert'') \<mapsto> Some [''ca.crt'' \<mapsto> ''CERT''],
        (''default'', ''dubbo-ca-cert'') \<mapsto> Some [''ca.crt'' \<mapsto> ''CERT'']]\<rparr>"

definition demo_package :: "(int \<times> int, string, int \<times> string) cert_package" where
  "demo_package =
     \<lparr>DecodeCert = (\<lambda>pem. if pem = ''CERT-A'' then Some (0, 1000) else None),
      DecodePrivateKey = (\<lambda>pem. if pem = [] then None else Some (drop 4 pem)),
      EncodePri = (\<lambda>k. case k of None \<Rightarrow> [] | Some r \<Rightarrow> ''KEY-'' @ r),
      GenerateAuthorityCert =
        (\<lambda>(now, rnd) root v. \<lparr>Cert = Some (now, now + v), CertPem = ''CERT-'' @ rnd, PrivateKey = Some rnd\<rparr>),
      IsValid = (\<lambda>(now, rnd) c. case Cert c of None \<Rightarrow> False | Some (nb, na) \<Rightarrow> nb \<le> now \<and> now \<le> na),
      NeedRefresh = (\<lambda>(now, rnd) c. case Cert c of None \<Rightarrow> True | Some (nb, na) \<Rightarrow> na < now + 100)\<rparr>"

definition fresh_server :: "(int \<times> int, string) Server" where
  "fresh_server =
     \<lparr>StopChan = [], Options = \<lparr>Namespace = ''dubbo-system'', CaValidity = 1000\<rparr>,
      CertStorage = \<lparr>RootCert = None, AuthorityCert = \<lparr>Cert = None, CertPem = [], PrivateKey = None\<rparr>,
                     TrustedCert = []\<rparr>,
      KubeClient = empty_cluster, slept = []\<rparr>"

section \<open>Properties of the client\<close>

subsection \<open>\<^verbatim>\<open>GetAuthorityCert\<close>\<close>

text \<open>
  C9. For every namespace, when the secret record does not exist in the store,
  \<^verbatim>\<open>GetAuthorityCert\<close> returns a pair of empty strings; the error of the lookup is not
  passed to the caller (the function has no error result).
\<close>

theorem GetAuthorityCert_absent:
  "secrets c (namespace, ''dubbo-ca-secret'') = None \<Longrightarrow>
   fst (GetAuthorityCert namespace c) = ([], [])"
  by (simp add: GetAuthorityCert_def Secrets_Get_def zero_object_def index_def)

theorem GetAuthorityCert_absent_witness:
  "secrets empty_cluster (''dubbo-system'', ''dubbo-ca-secret'') = None \<and>
   fst (GetAuthorityCert ''dubbo-system'' empty_cluster) = ([], [])"
  using GetAuthorityCert_absent [of empty_cluster "''dubbo-system''"]
  by (simp add: empty_cluster_def)

subsection \<open>\<^verbatim>\<open>UpdateAuthorityCert\<close>\<close>

text \<open>
  When the store answers the requests, \<^verbatim>\<open>UpdateAuthorityCert\<close> creates the record if
  there is none, writes nothing if the record reads the same, and updates a record that
  differs and has a data map.
\<close>

lemma UpdateAuthorityCert_absent:
  assumes "secrets c (ns, ''dubbo-ca-secret'') = None"
    and "\<not> failing c (SecretsGet ns ''dubbo-ca-secret'')"
    and "\<not> failing c (SecretsCreate ns ''dubbo-ca-secret'')"
  shows "UpdateAuthorityCert cert pri ns c =
    (Inr (), c\<lparr>secrets := (secrets c)((ns, ''dubbo-ca-secret'') \<mapsto>
                              Some [''cert.pem'' \<mapsto> cert, ''pri.pem'' \<mapsto> pri]),
               requests := requests c @ [(SecretsGet ns ''dubbo-ca-secret'', Some NotFound),
                                         (SecretsCreate ns ''dubbo-ca-secret'', None)]\<rparr>)"
  using assms
  by (simp add: UpdateAuthorityCert_def Secrets_Get_def Secrets_Create_def index_def issue_def)

lemma UpdateAuthorityCert_same:
  assumes "secrets c (ns, ''dubbo-ca-secret'') = Some d"
    and "index d ''cert.pem'' = cert" "index d ''pri.pem'' = pri"
    and "\<not> failing c (SecretsGet ns ''dubbo-ca-secret'')"
  shows "UpdateAuthorityCert cert pri ns c =
    (Inr (), c\<lparr>requests := requests c @ [(SecretsGet ns ''dubbo-ca-secret'', None)]\<rparr>)"
  using assms
  by (simp add: UpdateAuthorityCert_def Secrets_Get_def issue_def)

lemma UpdateAuthorityCert_differs:
  assumes "secrets c (ns, ''dubbo-ca-secret'') = Some (Some m)"
    and "\<not> (index (Some m) ''cert.pem'' = cert \<and> index (Some m) ''pri.pem'' = pri)"
    and "\<not> failing c (SecretsGet ns ''dubbo-ca-secret'')"
    and "\<not> failing c (SecretsUpdate ns ''dubbo-ca-secret'')"
  shows "UpdateAuthorityCert cert pri ns c =
    (Inr (), c\<lparr>secrets := (secrets c)((ns, ''dubbo-ca-secret'') \<mapsto>
                              Some (m(''cert.pem'' \<mapsto> cert, ''pri.pem'' \<mapsto> pri))),
               requests := requests c @ [(SecretsGet ns ''dubbo-ca-secret'', None),
                                         (SecretsUpdate ns ''dubbo-ca-secret'', None)]\<rparr>)"
  using assms
  by (auto simp add: UpdateAuthorityCert_def Secrets_Get_def Secrets_Update_def issue_def assign_def)

text \<open>
  A record that exists without a data map and differs from the new content is not
  overwritten: the assignment to its nil map panics before any write is requested.
\<close>

lemma UpdateAuthorityCert_nil:
  assumes "secrets c (ns, ''dubbo-ca-secret'') = Some None"
    and "\<not> (cert = [] \<and> pri = [])"
    and "\<not> failing c (SecretsGet ns ''dubbo-ca-secret'')"
  shows "UpdateAuthorityCert cert pri ns c =
    (Inl AssignmentToEntryInNilMap,
     c\<lparr>requests := requests c @ [(SecretsGet ns ''dubbo-ca-secret'', None)]\<rparr>)"
  using assms
  by (auto simp add: UpdateAuthorityCert_def Secrets_Get_def issue_def assign_def index_def)

text \<open>
  C5. \<^verbatim>\<open>UpdateAuthorityCert\<close> should overwrite an existing record whose content differs
  from the new content. Run on a cluster whose secret \<^verbatim>\<open>dubbo-ca-secret\<close> exists and
  carries no data, with a certificate and a key that are not empty, it panics and leaves
  the record as it was.
\<close>

theorem UpdateAuthorityCert_bare_secret_panics:
  "fst (UpdateAuthorityCert ''CERT'' ''KEY'' ''dubbo-system'' bare_secret_cluster) =
     Inl AssignmentToEntryInNilMap \<and>
   secrets (snd (UpdateAuthorityCert ''CERT'' ''KEY'' ''dubbo-system'' bare_secret_cluster)) =
     secrets bare_secret_cluster"
  by (simp add: UpdateAuthorityCert_def Secrets_Get_def bare_secret_cluster_def empty_cluster_def
      index_def assign_def issue_def)

subsection \<open>\<^verbatim>\<open>UpdateAuthorityPublicKey\<close>: one namespace\<close>

text \<open>The result of the loop body in each of the cases the store can present.\<close>

lemmas api_defs = ConfigMaps_Get_def ConfigMaps_Create_def ConfigMaps_Update_def issue_def
  zero_object_def

lemma body_system: "UpdateAuthorityPublicKey_body cert ''kube-system'' c = (Continue, c)"
  by (simp add: UpdateAuthorityPublicKey_body_def)

lemma body_same:
  assumes "n \<noteq> ''kube-system''" "\<not> failing c (ConfigMapsGet n ''dubbo-ca-cert'')"
    "configmaps c (n, ''dubbo-ca-cert'') = Some d" "index d ''ca.crt'' = cert"
  shows "UpdateAuthorityPublicKey_body cert n c =
     (Continue, c\<lparr>requests := requests c @ [(ConfigMapsGet n ''dubbo-ca-cert'', None)]\<rparr>)"
  using assms by (simp add: UpdateAuthorityPublicKey_body_def api_defs)

lemma body_nil:
  assumes "n \<noteq> ''kube-system''" "\<not> failing c (ConfigMapsGet n ''dubbo-ca-cert'')"
    "configmaps c (n, ''dubbo-ca-cert'') = Some None" "cert \<noteq> []"
  shows "UpdateAuthorityPublicKey_body cert n c =
     (Panicked AssignmentToEntryInNilMap, c\<lparr>requests := requests c @ [(ConfigMapsGet n ''dubbo-ca-cert'', None)]\<rparr>)"
  using assms by (auto simp add: UpdateAuthorityPublicKey_body_def api_defs index_def assign_def)

lemma body_update:
  assumes "n \<noteq> ''kube-system''" "\<not> failing c (ConfigMapsGet n ''dubbo-ca-cert'')"
    "configmaps c (n, ''dubbo-ca-cert'') = Some (Some m)" "index (Some m) ''ca.crt'' \<noteq> cert"
  shows "UpdateAuthorityPublicKey_body cert n c =
     (if failing c (ConfigMapsUpdate n ''dubbo-ca-cert'')
      then (Return False, c\<lparr>requests := requests c @ [(ConfigMapsGet n ''dubbo-ca-cert'', None),
              (ConfigMapsUpdate n ''dubbo-ca-cert'', Some ServerError)]\<rparr>)
      else (Continue, c\<lparr>configmaps := (configmaps c)((n, ''dubbo-ca-cert'') \<mapsto> Some (m(''ca.crt'' \<mapsto> cert))),
              requests := requests c @ [(ConfigMapsGet n ''dubbo-ca-cert'', None),
              (ConfigMapsUpdate n ''dubbo-ca-cert'', None)]\<rparr>))"
  using assms by (auto simp add: UpdateAuthorityPublicKey_body_def api_defs assign_def)

lemma body_create:
  assumes "n \<noteq> ''kube-system''"
    "failing c (ConfigMapsGet n ''dubbo-ca-cert'') \<or> configmaps c (n, ''dubbo-ca-cert'') = None"
  shows "UpdateAuthorityPublicKey_body cert n c =
     (let g = (if failing c (ConfigMapsGet n ''dubbo-ca-cert'') then ServerError else NotFound) in
      if failing c (ConfigMapsCreate n ''dubbo-ca-cert'')
      then (Return False, c\<lparr>requests := requests c @ [(ConfigMapsGet n ''dubbo-ca-cert'', Some g),
              (ConfigMapsCreate n ''dubbo-ca-cert'', Some ServerError)]\<rparr>)
      else if configmaps c (n, ''dubbo-ca-cert'') \<noteq> None
      then (Return False, c\<lparr>requests := requests c @ [(ConfigMapsGet n ''dubbo-ca-cert'', Some g),
              (ConfigMapsCreate n ''dubbo-ca-cert'', Some AlreadyExists)]\<rparr>)
      else (Continue, c\<lparr>configmaps := (configmaps c)((n, ''dubbo-ca-cert'') \<mapsto> Some [''ca.crt'' \<mapsto> cert]),
              requests := requests c @ [(ConfigMapsGet n ''dubbo-ca-cert'', Some g),
              (ConfigMapsCreate n ''dubbo-ca-cert'', None)]\<rparr>))"
  using assms by (auto simp add: UpdateAuthorityPublicKey_body_def api_defs index_def Let_def)


lemma body_cases:
  obtains (system) "n = ''kube-system''"
  | (create) "n \<noteq> ''kube-system''"
      "failing c (ConfigMapsGet n ''dubbo-ca-cert'') \<or> configmaps c (n, ''dubbo-ca-cert'') = None"
  | (same) d where "n \<noteq> ''kube-system''" "\<not> failing c (ConfigMapsGet n ''dubbo-ca-cert'')"
      "configmaps c (n, ''dubbo-ca-cert'') = Some d" "index d ''ca.crt'' = cert"
  | (nil) "n \<noteq> ''kube-system''" "\<not> failing c (ConfigMapsGet n ''dubbo-ca-cert'')"
      "configmaps c (n, ''dubbo-ca-cert'') = Some None" "cert \<noteq> []"
  | (update) m where "n \<noteq> ''kube-system''" "\<not> failing c (ConfigMapsGet n ''dubbo-ca-cert'')"
      "configmaps c (n, ''dubbo-ca-cert'') = Some (Some m)" "index (Some m) ''ca.crt'' \<noteq> cert"
proof (cases "n = ''kube-system''")
  case True
  then show ?thesis by (rule system)
next
  case ns: False
  show ?thesis
  proof (cases "failing c (ConfigMapsGet n ''dubbo-ca-cert'') \<or> configmaps c (n, ''dubbo-ca-cert'') = None")
    case True
    with ns show ?thesis by (rule create)
  next
    case False
    then obtain d where d: "\<not> failing c (ConfigMapsGet n ''dubbo-ca-cert'')"
      "configmaps c (n, ''dubbo-ca-cert'') = Some d" by auto
    show ?thesis
    proof (cases "index d ''ca.crt'' = cert")
      case True
      with ns d show ?thesis by (rule same)
    next
      case differs: False
      show ?thesis
      proof (cases d)
        case None
        with differs have "cert \<noteq> []" by (auto simp: index_def)
        with ns d None show ?thesis by (auto intro: nil)
      next
        case (Some m)
        with ns d differs show ?thesis by (auto intro: update)
      qed
    qed
  qed
qed

lemma body_potential:
  "potential cert N (snd (UpdateAuthorityPublicKey_body cert n c)) \<le> potential cert N c"
proof (cases rule: body_cases [where n = n and c = c and cert = cert])
  case system
  then show ?thesis by (simp add: body_system)
next
  case create
  then show ?thesis
    by (auto simp add: body_create potential_def effective_writes_def trust_record_is_def Let_def index_def)
next
  case (same d)
  then show ?thesis
    by (simp add: body_same potential_def effective_writes_def trust_record_is_def)
next
  case nil
  then show ?thesis
    by (simp add: body_nil potential_def effective_writes_def trust_record_is_def)
next
  case (update m)
  then show ?thesis
    by (auto simp add: body_update potential_def effective_writes_def trust_record_is_def index_def)
qed

lemma range_potential:
  "potential cert N (snd (UpdateAuthorityPublicKey_range cert items c)) \<le> potential cert N c"
proof (induction items arbitrary: c)
  case Nil
  then show ?case by simp
next
  case (Cons n items)
  obtain f c' where b: "UpdateAuthorityPublicKey_body cert n c = (f, c')" by (cases "UpdateAuthorityPublicKey_body cert n c")
  have le: "potential cert N c' \<le> potential cert N c"
    using body_potential [of cert N n c] b by simp
  show ?case
  proof (cases f)
    case Continue
    with b Cons.IH [of c'] le show ?thesis by simp
  next
    case (Return x)
    with b le show ?thesis by simp
  next
    case (Panicked p)
    with b le show ?thesis by simp
  qed
qed

lemma UpdateAuthorityPublicKey_potential:
  "potential cert N (snd (UpdateAuthorityPublicKey cert c)) \<le> potential cert N c"
proof -
  have "potential cert N (issue NamespacesList e c) = potential cert N c" for e
    by (simp add: potential_def issue_def effective_writes_def trust_record_is_def)
  then show ?thesis
    using range_potential [of cert N "namespaces c" "issue NamespacesList None c"]
    by (simp add: UpdateAuthorityPublicKey_def Namespaces_List_def)
qed


lemma body_requests:
  "\<exists>rs. requests (snd (UpdateAuthorityPublicKey_body cert n c)) = requests c @ rs"
proof (cases rule: body_cases [where n = n and c = c and cert = cert])
  case system
  then show ?thesis by (simp add: body_system)
next
  case create
  then show ?thesis by (simp add: body_create Let_def)
next
  case (same d)
  then show ?thesis by (simp add: body_same)
next
  case nil
  then show ?thesis by (simp add: body_nil)
next
  case (update m)
  then show ?thesis by (simp add: body_update)
qed

lemma range_requests:
  "\<exists>rs. requests (snd (UpdateAuthorityPublicKey_range cert items c)) = requests c @ rs"
proof (induction items arbitrary: c)
  case Nil
  then show ?case by simp
next
  case (Cons n items)
  obtain f c' where b: "UpdateAuthorityPublicKey_body cert n c = (f, c')"
    by (cases "UpdateAuthorityPublicKey_body cert n c")
  obtain rs where rs: "requests c' = requests c @ rs"
    using body_requests [of cert n c] b by auto
  show ?case
  proof (cases f)
    case Continue
    obtain rs' where "requests (snd (UpdateAuthorityPublicKey_range cert items c')) = requests c' @ rs'"
      using Cons.IH [of c'] by auto
    with b Continue rs show ?thesis by simp
  next
    case (Return x)
    with b rs show ?thesis by simp
  next
    case (Panicked p)
    with b rs show ?thesis by simp
  qed
qed

lemma UpdateAuthorityPublicKey_requests:
  "\<exists>rs. requests (snd (UpdateAuthorityPublicKey cert c)) = requests c @ rs"
proof (cases "failing c NamespacesList")
  case True
  then show ?thesis by (simp add: UpdateAuthorityPublicKey_def Namespaces_List_def issue_def)
next
  case False
  obtain rs where "requests (snd (UpdateAuthorityPublicKey_range cert (namespaces c) (issue NamespacesList None c)))
      = requests (issue NamespacesList None c) @ rs"
    using range_requests by blast
  with False show ?thesis by (simp add: UpdateAuthorityPublicKey_def Namespaces_List_def issue_def)
qed

lemma effective_writes_append:
  "effective_writes n (xs @ ys) = effective_writes n xs + effective_writes n ys"
  by (simp add: effective_writes_def)

lemma body_synced:
  assumes "trust_record_is cert N c"
  shows "trust_record_is cert N (snd (UpdateAuthorityPublicKey_body cert n c)) \<and>
         update_calls N (requests (snd (UpdateAuthorityPublicKey_body cert n c))) = update_calls N (requests c) \<and>
         configmaps (snd (UpdateAuthorityPublicKey_body cert n c)) (N, ''dubbo-ca-cert'') = configmaps c (N, ''dubbo-ca-cert'')"
proof (cases rule: body_cases [where n = n and c = c and cert = cert])
  case system
  with assms show ?thesis by (simp add: body_system)
next
  case create
  with assms show ?thesis
    by (auto simp add: body_create Let_def trust_record_is_def update_calls_def split: option.splits)
next
  case (same d)
  with assms show ?thesis by (simp add: body_same trust_record_is_def update_calls_def)
next
  case nil
  with assms show ?thesis by (simp add: body_nil trust_record_is_def update_calls_def)
next
  case (update m)
  with assms show ?thesis
    by (auto simp add: body_update trust_record_is_def update_calls_def split: option.splits)
qed

lemma range_synced:
  assumes "trust_record_is cert N c"
  shows "trust_record_is cert N (snd (UpdateAuthorityPublicKey_range cert items c)) \<and>
         update_calls N (requests (snd (UpdateAuthorityPublicKey_range cert items c))) = update_calls N (requests c) \<and>
         configmaps (snd (UpdateAuthorityPublicKey_range cert items c)) (N, ''dubbo-ca-cert'') = configmaps c (N, ''dubbo-ca-cert'')"
  using assms
proof (induction items arbitrary: c)
  case Nil
  then show ?case by simp
next
  case (Cons n items)
  obtain f c' where b: "UpdateAuthorityPublicKey_body cert n c = (f, c')"
    by (cases "UpdateAuthorityPublicKey_body cert n c")
  have c': "trust_record_is cert N c'" "update_calls N (requests c') = update_calls N (requests c)"
    "configmaps c' (N, ''dubbo-ca-cert'') = configmaps c (N, ''dubbo-ca-cert'')"
    using body_synced [OF Cons.prems, of n] b by simp_all
  show ?case
  proof (cases f)
    case Continue
    with b c' Cons.IH [OF c'(1)] show ?thesis by simp
  next
    case (Return x)
    with b c' show ?thesis by simp
  next
    case (Panicked p)
    with b c' show ?thesis by simp
  qed
qed

lemma UpdateAuthorityPublicKey_synced:
  assumes "trust_record_is cert N c"
  shows "trust_record_is cert N (snd (UpdateAuthorityPublicKey cert c)) \<and>
         update_calls N (requests (snd (UpdateAuthorityPublicKey cert c))) = update_calls N (requests c) \<and>
         configmaps (snd (UpdateAuthorityPublicKey cert c)) (N, ''dubbo-ca-cert'') = configmaps c (N, ''dubbo-ca-cert'')"
proof -
  have i: "trust_record_is cert N (issue NamespacesList e c)"
     "update_calls N (requests (issue NamespacesList e c)) = update_calls N (requests c)"
     "configmaps (issue NamespacesList e c) = configmaps c" for e
    using assms by (simp_all add: issue_def trust_record_is_def update_calls_def)
  have i1: "trust_record_is cert N (issue NamespacesList None c)"
    by (rule i(1))
  show ?thesis
    using range_synced [OF i1, where items = "namespaces c"] i
    by (simp add: UpdateAuthorityPublicKey_def Namespaces_List_def)
qed

lemma body_continue_synced:
  assumes "UpdateAuthorityPublicKey_body cert n c = (Continue, c')" "n \<noteq> ''kube-system''"
  shows "trust_record_is cert n c'"
proof (cases rule: body_cases [where n = n and c = c and cert = cert])
  case system
  with assms show ?thesis by simp
next
  case create
  with assms show ?thesis
    by (auto simp add: body_create Let_def trust_record_is_def index_def split: if_splits)
next
  case (same d)
  with assms show ?thesis by (auto simp add: body_same trust_record_is_def)
next
  case nil
  with assms show ?thesis by (simp add: body_nil)
next
  case (update m)
  with assms show ?thesis
    by (auto simp add: body_update trust_record_is_def index_def split: if_splits)
qed

lemma body_returns_false:
  assumes "UpdateAuthorityPublicKey_body cert n c = (Return b, c')"
  shows "\<not> b"
proof (cases rule: body_cases [where n = n and c = c and cert = cert])
  case system
  with assms show ?thesis by (simp add: body_system)
next
  case create
  with assms show ?thesis by (auto simp add: body_create Let_def split: if_splits)
next
  case (same d)
  with assms show ?thesis by (simp add: body_same)
next
  case nil
  with assms show ?thesis by (simp add: body_nil)
next
  case (update m)
  with assms show ?thesis by (auto simp add: body_update split: if_splits)
qed

lemma range_true_synced:
  assumes "UpdateAuthorityPublicKey_range cert items c = (Inr True, c')"
    "n \<in> set items" "n \<noteq> ''kube-system''"
  shows "trust_record_is cert n c'"
  using assms
proof (induction items arbitrary: c)
  case Nil
  then show ?case by simp
next
  case (Cons m items)
  obtain f c1 where b: "UpdateAuthorityPublicKey_body cert m c = (f, c1)"
    by (cases "UpdateAuthorityPublicKey_body cert m c")
  from Cons.prems(1) b have f: "f = Continue"
    using body_returns_false [of cert m c _ c1] by (cases f) auto
  from Cons.prems(1) b f have rest: "UpdateAuthorityPublicKey_range cert items c1 = (Inr True, c')"
    by simp
  show ?case
  proof (cases "n = m")
    case True
    with b f Cons.prems(3) have "trust_record_is cert n c1"
      using body_continue_synced by blast
    then show ?thesis using range_synced [of cert n c1 items] rest by simp
  next
    case False
    with Cons.prems(2) have "n \<in> set items" by simp
    with Cons.IH rest Cons.prems(3) show ?thesis by blast
  qed
qed

lemma UpdateAuthorityPublicKey_true_synced:
  assumes "fst (UpdateAuthorityPublicKey cert c) = Inr True"
    "n \<in> set (namespaces c)" "n \<noteq> ''kube-system''"
  shows "trust_record_is cert n (snd (UpdateAuthorityPublicKey cert c))"
proof -
  from assms(1) have nf: "\<not> failing c NamespacesList"
    by (auto simp add: UpdateAuthorityPublicKey_def Namespaces_List_def)
  then have eq: "UpdateAuthorityPublicKey cert c =
      UpdateAuthorityPublicKey_range cert (namespaces c) (issue NamespacesList None c)"
    by (simp add: UpdateAuthorityPublicKey_def Namespaces_List_def)
  with assms(1) have "UpdateAuthorityPublicKey_range cert (namespaces c) (issue NamespacesList None c)
     = (Inr True, snd (UpdateAuthorityPublicKey cert c))"
    by (metis prod.collapse)
  from range_true_synced [OF this assms(2,3)] show ?thesis .
qed

lemmas client_defs = UpdateAuthorityPublicKey_def UpdateAuthorityPublicKey_body_def Namespaces_List_def
  ConfigMaps_Get_def ConfigMaps_Create_def ConfigMaps_Update_def issue_def zero_object_def
  index_def assign_def

lemma range_append:
  assumes "UpdateAuthorityPublicKey_range cert xs c = (Inr True, c1)"
  shows "UpdateAuthorityPublicKey_range cert (xs @ ys) c = UpdateAuthorityPublicKey_range cert ys c1"
  using assms
proof (induction xs arbitrary: c)
  case Nil
  then show ?case by simp
next
  case (Cons x xs)
  obtain f c' where b: "UpdateAuthorityPublicKey_body cert x c = (f, c')"
    by (cases "UpdateAuthorityPublicKey_body cert x c")
  from Cons.prems b have f: "f = Continue"
    using body_returns_false [of cert x c _ c'] by (cases f) auto
  with Cons.prems b have "UpdateAuthorityPublicKey_range cert xs c' = (Inr True, c1)"
    by simp
  from Cons.IH [OF this] b f show ?case by simp
qed

subsection \<open>\<^verbatim>\<open>UpdateAuthorityPublicKey\<close>: idempotence\<close>

text \<open>
  C4. For all namespaces \<open>N\<close> and all certificates \<open>C\<close>: two calls of
  \<^verbatim>\<open>UpdateAuthorityPublicKey\<close> with the same \<open>C\<close>, one after the other, make the store
  carry out at most one write to the trust record of \<open>N\<close>. If the record of \<open>N\<close> already
  reads \<open>C\<close>, a call issues no update request for \<open>N\<close>, carries out no write to the
  record and leaves it as it is. After a call that returns true, the record of every
  listed namespace other than \<^verbatim>\<open>kube-system\<close> reads \<open>C\<close>, so a second call finds it so.
\<close>

theorem UpdateAuthorityPublicKey_idempotent:
  "effective_writes N (requests (snd (UpdateAuthorityPublicKey C (snd (UpdateAuthorityPublicKey C c)))))
     \<le> effective_writes N (requests c) + 1 \<and>
   (trust_record_is C N c \<longrightarrow>
      update_calls N (requests (snd (UpdateAuthorityPublicKey C c))) = update_calls N (requests c) \<and>
      effective_writes N (requests (snd (UpdateAuthorityPublicKey C c))) = effective_writes N (requests c) \<and>
      configmaps (snd (UpdateAuthorityPublicKey C c)) (N, ''dubbo-ca-cert'') = configmaps c (N, ''dubbo-ca-cert'')) \<and>
   (fst (UpdateAuthorityPublicKey C c) = Inr True \<and> N \<in> set (namespaces c) \<and> N \<noteq> ''kube-system'' \<longrightarrow>
      trust_record_is C N (snd (UpdateAuthorityPublicKey C c)))"
proof (intro conjI impI)
  let ?c1 = "snd (UpdateAuthorityPublicKey C c)"
  let ?c2 = "snd (UpdateAuthorityPublicKey C ?c1)"
  have "potential C N ?c2 \<le> potential C N ?c1"
    by (rule UpdateAuthorityPublicKey_potential)
  also have "\<dots> \<le> potential C N c"
    by (rule UpdateAuthorityPublicKey_potential)
  finally show "effective_writes N (requests ?c2) \<le> effective_writes N (requests c) + 1"
    by (simp add: potential_def split: if_splits)
next
  assume t: "trust_record_is C N c"
  let ?c1 = "snd (UpdateAuthorityPublicKey C c)"
  from UpdateAuthorityPublicKey_synced [OF t]
  have t1: "trust_record_is C N ?c1" by simp
  from UpdateAuthorityPublicKey_synced [OF t]
  show "update_calls N (requests ?c1) = update_calls N (requests c)"
    and "configmaps ?c1 (N, ''dubbo-ca-cert'') = configmaps c (N, ''dubbo-ca-cert'')"
    by simp_all
  have "potential C N ?c1 \<le> potential C N c"
    by (rule UpdateAuthorityPublicKey_potential)
  with t t1 have le: "effective_writes N (requests ?c1) \<le> effective_writes N (requests c)"
    by (simp add: potential_def)
  obtain rs where "requests ?c1 = requests c @ rs"
    using UpdateAuthorityPublicKey_requests by blast
  then have "effective_writes N (requests c) \<le> effective_writes N (requests ?c1)"
    by (simp add: effective_writes_append)
  with le show "effective_writes N (requests ?c1) = effective_writes N (requests c)"
    by simp
next
  assume "fst (UpdateAuthorityPublicKey C c) = Inr True \<and> N \<in> set (namespaces c) \<and> N \<noteq> ''kube-system''"
  then show "trust_record_is C N (snd (UpdateAuthorityPublicKey C c))"
    using UpdateAuthorityPublicKey_true_synced by blast
qed

theorem UpdateAuthorityPublicKey_idempotent_witness:
  "trust_record_is ''CERT'' ''default'' synced_cluster \<and>
   update_calls ''default'' (requests (snd (UpdateAuthorityPublicKey ''CERT'' synced_cluster))) = 0 \<and>
   effective_writes ''default'' (requests (snd (UpdateAuthorityPublicKey ''CERT'' synced_cluster))) = 0 \<and>
   fst (UpdateAuthorityPublicKey ''CERT'' empty_cluster) = Inr True \<and>
   ''default'' \<in> set (namespaces empty_cluster) \<and>
   trust_record_is ''CERT'' ''default'' (snd (UpdateAuthorityPublicKey ''CERT'' empty_cluster))"
proof -
  have t: "trust_record_is ''CERT'' ''default'' synced_cluster"
    by (simp add: trust_record_is_def synced_cluster_def empty_cluster_def index_def)
  have z: "update_calls ''default'' (requests synced_cluster) = 0"
    "effective_writes ''default'' (requests synced_cluster) = 0"
    by (simp_all add: update_calls_def effective_writes_def synced_cluster_def empty_cluster_def)
  have ok: "fst (UpdateAuthorityPublicKey ''CERT'' empty_cluster) = Inr True"
    by (simp add: client_defs empty_cluster_def)
  have m: "''default'' \<in> set (namespaces empty_cluster)" "''default'' \<noteq> ''kube-system''"
    by (simp_all add: empty_cluster_def)
  from UpdateAuthorityPublicKey_idempotent [of "''default''" "''CERT''" synced_cluster]
    UpdateAuthorityPublicKey_idempotent [of "''default''" "''CERT''" empty_cluster] t z ok m
  show ?thesis by simp
qed

subsection \<open>\<^verbatim>\<open>UpdateAuthorityPublicKey\<close>: a failed write ends the broadcast\<close>

text \<open>
  C2 as stated says that after a failed create or update the remaining namespaces are
  still attempted. They are not: on a cluster whose API server fails the creation of the
  ConfigMap in \<^verbatim>\<open>dubbo-system\<close>, the call returns false after three requests, none of them
  for the namespace \<^verbatim>\<open>default\<close> that follows in the list, and \<^verbatim>\<open>default\<close> is left without
  a trust record.
\<close>

theorem UpdateAuthorityPublicKey_abandons_rest:
  "UpdateAuthorityPublicKey ''CERT'' flaky_cluster =
     (Inr False, flaky_cluster\<lparr>requests :=
        [(NamespacesList, None),
         (ConfigMapsGet ''dubbo-system'' ''dubbo-ca-cert'', Some NotFound),
         (ConfigMapsCreate ''dubbo-system'' ''dubbo-ca-cert'', Some ServerError)]\<rparr>) \<and>
   ''default'' \<in> set (namespaces flaky_cluster) \<and>
   configmaps (snd (UpdateAuthorityPublicKey ''CERT'' flaky_cluster)) (''default'', ''dubbo-ca-cert'') = None"
  by (simp add: client_defs flaky_cluster_def empty_cluster_def)

text \<open>
  C2, amended. When the namespaces before \<open>n\<close> have been handled without a failure and
  the create or the update of the trust record of \<open>n\<close> fails, \<^verbatim>\<open>UpdateAuthorityPublicKey\<close>
  returns false at once: the cluster it leaves behind is the one it found on reaching
  \<open>n\<close>, with the lookup for \<open>n\<close> and the failed write added to the trace. Nothing is
  requested for the namespaces after \<open>n\<close>.
\<close>

theorem UpdateAuthorityPublicKey_stops_at_failure:
  assumes "\<not> failing c NamespacesList"
    and "namespaces c = before @ n # after"
    and "UpdateAuthorityPublicKey_range cert before (issue NamespacesList None c) = (Inr True, c1)"
    and "n \<noteq> ''kube-system''"
    and "(failing c1 (ConfigMapsGet n ''dubbo-ca-cert'') \<or> configmaps c1 (n, ''dubbo-ca-cert'') = None) \<and>
         (failing c1 (ConfigMapsCreate n ''dubbo-ca-cert'') \<or> configmaps c1 (n, ''dubbo-ca-cert'') \<noteq> None)
         \<or>
         \<not> failing c1 (ConfigMapsGet n ''dubbo-ca-cert'') \<and>
         (\<exists>m. configmaps c1 (n, ''dubbo-ca-cert'') = Some (Some m) \<and> index (Some m) ''ca.crt'' \<noteq> cert) \<and>
         failing c1 (ConfigMapsUpdate n ''dubbo-ca-cert'')"
  shows "\<exists>g w e. UpdateAuthorityPublicKey cert c =
            (Inr False, c1\<lparr>requests := requests c1 @ [(ConfigMapsGet n ''dubbo-ca-cert'', g), (w, Some e)]\<rparr>) \<and>
            (w = ConfigMapsCreate n ''dubbo-ca-cert'' \<or> w = ConfigMapsUpdate n ''dubbo-ca-cert'')"
proof -
  have run: "UpdateAuthorityPublicKey cert c = UpdateAuthorityPublicKey_range cert (n # after) c1"
    using assms(1,2) range_append [OF assms(3), of "n # after"]
    by (simp add: UpdateAuthorityPublicKey_def Namespaces_List_def)
  from assms(5) consider
      (create) "failing c1 (ConfigMapsGet n ''dubbo-ca-cert'') \<or> configmaps c1 (n, ''dubbo-ca-cert'') = None"
        "failing c1 (ConfigMapsCreate n ''dubbo-ca-cert'') \<or> configmaps c1 (n, ''dubbo-ca-cert'') \<noteq> None"
    | (update) m where "\<not> failing c1 (ConfigMapsGet n ''dubbo-ca-cert'')"
        "configmaps c1 (n, ''dubbo-ca-cert'') = Some (Some m)" "index (Some m) ''ca.crt'' \<noteq> cert"
        "failing c1 (ConfigMapsUpdate n ''dubbo-ca-cert'')"
    by auto
  then show ?thesis
  proof cases
    case create
    from create(2) show ?thesis
      unfolding run by (auto simp add: body_create [OF assms(4) create(1)] Let_def)
  next
    case update
    then have "UpdateAuthorityPublicKey cert c =
        (Inr False, c1\<lparr>requests := requests c1 @ [(ConfigMapsGet n ''dubbo-ca-cert'', None),
           (ConfigMapsUpdate n ''dubbo-ca-cert'', Some ServerError)]\<rparr>)"
      unfolding run by (simp add: body_update [OF assms(4)])
    then show ?thesis
      by (intro exI [of _ None] exI [of _ "ConfigMapsUpdate n ''dubbo-ca-cert''"] exI [of _ ServerError])
        simp
  qed
qed

theorem UpdateAuthorityPublicKey_stops_at_failure_witness:
  "\<not> failing flaky_cluster NamespacesList \<and>
   namespaces flaky_cluster = [] @ ''dubbo-system'' # [''kube-system'', ''default''] \<and>
   failing (issue NamespacesList None flaky_cluster) (ConfigMapsCreate ''dubbo-system'' ''dubbo-ca-cert'') \<and>
   (\<exists>g w e. UpdateAuthorityPublicKey ''CERT'' flaky_cluster =
      (Inr False, (issue NamespacesList None flaky_cluster)\<lparr>requests :=
          requests (issue NamespacesList None flaky_cluster) @
          [(ConfigMapsGet ''dubbo-system'' ''dubbo-ca-cert'', g), (w, Some e)]\<rparr>) \<and>
      (w = ConfigMapsCreate ''dubbo-system'' ''dubbo-ca-cert'' \<or> w = ConfigMapsUpdate ''dubbo-system'' ''dubbo-ca-cert''))"
proof -
  let ?c1 = "issue NamespacesList None flaky_cluster"
  have h1: "\<not> failing flaky_cluster NamespacesList"
    by (simp add: flaky_cluster_def empty_cluster_def)
  have h2: "namespaces flaky_cluster = [] @ ''dubbo-system'' # [''kube-system'', ''default'']"
    by (simp add: flaky_cluster_def empty_cluster_def)
  have h3: "UpdateAuthorityPublicKey_range ''CERT'' [] ?c1 = (Inr True, ?c1)"
    by simp
  have h4: "''dubbo-system'' \<noteq> ''kube-system''"
    by simp
  have h5: "failing ?c1 (ConfigMapsCreate ''dubbo-system'' ''dubbo-ca-cert'')"
    "configmaps ?c1 (''dubbo-system'', ''dubbo-ca-cert'') = None"
    by (simp_all add: flaky_cluster_def empty_cluster_def issue_def)
  from UpdateAuthorityPublicKey_stops_at_failure [OF h1 h2 h3 h4] h5 h1 h2
  show ?thesis by blast
qed

end
